theory Spec2Isabelle
  imports Complex_Main
begin

section \<open>Python values used by the notebook\<close>

text \<open>
  A Python \<open>str\<close> is a sequence of Unicode code points, and \<open>len\<close> counts code points.
  A string is therefore a list of code points (natural numbers); \<open>str\<close> turns an
  Isabelle literal into that list.
\<close>

type_synonym codepoint = nat
type_synonym pystr = "codepoint list"

definition str :: "string \<Rightarrow> pystr" where
  "str s = map of_char s"

datatype py_error = KeyError pystr | IndexError | ZeroDivisionError

text \<open>\<open>s.split(sep)\<close> for a separator of one character: the pieces between the
  separators, always at least one piece.\<close>

fun split_on :: "'a \<Rightarrow> 'a list \<Rightarrow> 'a list list" where
  "split_on sep [] = [[]]"
| "split_on sep (c # cs) =
     (if c = sep then [] # split_on sep cs
      else (case split_on sep cs of
              [] \<Rightarrow> [[c]]
            | piece # pieces \<Rightarrow> (c # piece) # pieces))"

text \<open>\<open>xs[:stop]\<close>: a negative \<open>stop\<close> counts from the end, and the bound is clipped.\<close>

definition slice_to :: "int \<Rightarrow> 'a list \<Rightarrow> 'a list" where
  "slice_to stop xs =
     (if 0 \<le> stop then take (nat stop) xs
      else take (nat (int (length xs) + stop)) xs)"

text \<open>\<open>xs * n\<close>: the list repeated \<open>n\<close> times, empty for \<open>n \<le> 0\<close>.\<close>

definition list_repeat :: "'a list \<Rightarrow> int \<Rightarrow> 'a list" where
  "list_repeat xs n = concat (replicate (nat n) xs)"

text \<open>\<open>d.get(k, default)\<close>.\<close>

definition dict_get :: "('k \<rightharpoonup> 'v) \<Rightarrow> 'k \<Rightarrow> 'v \<Rightarrow> 'v" where
  "dict_get d k dflt = (case d k of None \<Rightarrow> dflt | Some v \<Rightarrow> v)"

text \<open>\<open>xs[i]\<close> on a list: negative indices count from the end, anything else out of
  range raises IndexError.\<close>

definition list_get :: "'a list \<Rightarrow> int \<Rightarrow> py_error + 'a" where
  "list_get xs i =
     (if 0 \<le> i \<and> i < int (length xs) then Inr (xs ! nat i)
      else if - int (length xs) \<le> i \<and> i < 0 then Inr (xs ! nat (int (length xs) + i))
      else Inl IndexError)"

text \<open>\<open>str.lower\<close> is Python's Unicode lower-casing, whose tables are no part of the
  notebook: the functions that call it take it as the parameter \<open>lower\<close>, and what is
  proved of them holds for every such function. \<open>ascii_lower\<close> is \<open>str.lower\<close> on
  strings of ASCII characters, used to run the model on examples.\<close>

definition ascii_lower :: "pystr \<Rightarrow> pystr" where
  "ascii_lower s = map (\<lambda>c. if 65 \<le> c \<and> c \<le> 90 then c + 32 else c) s"


section \<open>get_data\<close>

text \<open>
  \<^verbatim>\<open>
  def get_data(wavs, id_to_text, maxlen=50):
      data = []
      for w in wavs:
          id = w.split("/")[-1].split(".")[0]
          if len(id_to_text[id]) < maxlen:
              data.append({"audio": w, "text": id_to_text[id]})
      return data
  \<close>
\<close>

record sample =
  sample_audio :: pystr
  sample_text :: pystr

text \<open>\<open>w.split("/")[-1].split(".")[0]\<close>; both lists are non-empty, so neither index
  can fail (\<open>split_on_nonempty\<close> below).\<close>

definition derive_id :: "pystr \<Rightarrow> pystr" where
  "derive_id w = hd (split_on (of_char CHR ''.'') (last (split_on (of_char CHR ''/'') w)))"

fun get_data_loop ::
  "(pystr \<rightharpoonup> pystr) \<Rightarrow> int \<Rightarrow> pystr list \<Rightarrow> sample list \<Rightarrow> py_error + sample list" where
  "get_data_loop id_to_text maxlen [] data = Inr data"
| "get_data_loop id_to_text maxlen (w # ws) data =
     (let ident = derive_id w in
      case id_to_text ident of
        None \<Rightarrow> Inl (KeyError ident)
      | Some t \<Rightarrow>
          if int (length t) < maxlen
          then get_data_loop id_to_text maxlen ws
                 (data @ [\<lparr>sample_audio = w, sample_text = t\<rparr>])
          else get_data_loop id_to_text maxlen ws data)"

definition get_data :: "pystr list \<Rightarrow> (pystr \<rightharpoonup> pystr) \<Rightarrow> int \<Rightarrow> py_error + sample list" where
  "get_data wavs id_to_text maxlen = get_data_loop id_to_text maxlen wavs []"


section \<open>VectorizeChar\<close>

text \<open>
  \<^verbatim>\<open>
  class VectorizeChar:
      def __init__(self, max_len=50):
          self.vocab = (["-", "#", "<", ">"]
                        + [chr(i + 96) for i in range(1, 27)]
                        + [" ", ".", ",", "?"])
          self.max_len = max_len
          self.char_to_idx = {}
          for i, ch in enumerate(self.vocab):
              self.char_to_idx[ch] = i

      def __call__(self, text):
          text = text.lower()
          text = text[: self.max_len - 2]
          text = "<" + text + ">"
          pad_len = self.max_len - len(text)
          return [self.char_to_idx.get(ch, 1) for ch in text] + [0] * pad_len
  \<close>
\<close>

record vectorizer =
  vocab :: pystr
  max_len :: int
  char_to_idx :: "codepoint \<rightharpoonup> int"

definition vocabulary :: pystr where
  "vocabulary = str ''-#<>'' @ map (\<lambda>i. i + 96) [1..<27] @ str '' .,?''"

definition enumerate_py :: "'a list \<Rightarrow> (int \<times> 'a) list" where
  "enumerate_py xs = zip (map int [0..<length xs]) xs"

definition fill_index :: "(int \<times> 'k) list \<Rightarrow> ('k \<rightharpoonup> int) \<Rightarrow> ('k \<rightharpoonup> int)" where
  "fill_index ps d = fold (\<lambda>(i, ch) m. m(ch \<mapsto> i)) ps d"

definition VectorizeChar_init :: "int \<Rightarrow> vectorizer" where
  "VectorizeChar_init n =
     \<lparr>vocab = vocabulary, max_len = n,
      char_to_idx = fill_index (enumerate_py vocabulary) Map.empty\<rparr>"

definition VectorizeChar_call :: "(pystr \<Rightarrow> pystr) \<Rightarrow> vectorizer \<Rightarrow> pystr \<Rightarrow> int list" where
  "VectorizeChar_call lower self txt =
     (let t1 = lower txt;
          t2 = slice_to (max_len self - 2) t1;
          t3 = str ''<'' @ t2 @ str ''>'';
          pad_len = max_len self - int (length t3)
      in map (\<lambda>ch. dict_get (char_to_idx self) ch 1) t3 @ list_repeat [0] pad_len)"

definition get_vocabulary :: "vectorizer \<Rightarrow> pystr" where
  "get_vocabulary self = vocab self"

text \<open>Mapping a list of indices back through a vocabulary list, as the display callback
  does with \<open>idx_to_char[i]\<close> for indices in range.\<close>

definition decode_indices :: "pystr \<Rightarrow> int list \<Rightarrow> pystr" where
  "decode_indices v idxs = map (\<lambda>i. v ! nat i) idxs"



section \<open>path_to_audio\<close>

text \<open>
  \<^verbatim>\<open>
  def path_to_audio(path):
      audio = tf.io.read_file(path)
      audio, _ = tf.audio.decode_wav(audio, 1)
      audio = tf.squeeze(audio, axis=-1)
      stfts = tf.signal.stft(audio, frame_length=200, frame_step=80, fft_length=256)
      x = tf.math.pow(tf.abs(stfts), 0.5)
      means = tf.math.reduce_mean(x, 1, keepdims=True)
      stddevs = tf.math.reduce_std(x, 1, keepdims=True)
      x = (x - means) / stddevs
      audio_len = tf.shape(x)[0]
      pad_len = 2754
      paddings = tf.constant([[0, pad_len], [0, 0]])
      x = tf.pad(x, paddings, "CONSTANT")[:pad_len, :]
      return x
  \<close>
  The decoded single-channel waveform is the input of the model (reading and decoding the
  file is input/output). Tensor elements are real numbers; the one operation of the
  function that leaves the reals is the division, whose quotient by zero is an IEEE
  special value, so the quotients are values of \<open>tfloat\<close>.
\<close>

datatype tfloat = Val real | PInf | NInf | NaN

text \<open>Element-wise \<open>a / b\<close> on float tensors: no exception, a zero divisor gives an
  infinity or NaN.\<close>

definition tf_divide :: "real \<Rightarrow> real \<Rightarrow> tfloat" where
  "tf_divide a b =
     (if b \<noteq> 0 then Val (a / b)
      else if a = 0 then NaN
      else if 0 < a then PInf else NInf)"

definition frame_length :: nat where "frame_length = 200"
definition frame_step :: nat where "frame_step = 80"
definition fft_length :: nat where "fft_length = 256"
definition pad_len :: nat where "pad_len = 2754"

text \<open>\<open>tf.signal.stft\<close> with its defaults (periodic Hann window, no padding at the end):
  frames of \<open>frame_length\<close> samples every \<open>frame_step\<close> samples, each windowed,
  zero-extended to \<open>fft_length\<close> and transformed, keeping \<open>fft_length div 2 + 1\<close> bins.\<close>

definition num_frames :: "nat \<Rightarrow> nat" where
  "num_frames n = (if n < frame_length then 0 else 1 + (n - frame_length) div frame_step)"

definition num_bins :: nat where
  "num_bins = fft_length div 2 + 1"

definition hann_window :: "nat \<Rightarrow> real" where
  "hann_window k = 1 / 2 - 1 / 2 * cos (2 * pi * real k / real frame_length)"

definition rfft_bin :: "real list \<Rightarrow> nat \<Rightarrow> complex" where
  "rfft_bin frame k =
     (\<Sum>j < length frame.
        of_real (hann_window j * frame ! j) * cis (- 2 * pi * real k * real j / real fft_length))"

definition stft :: "real list \<Rightarrow> complex list list" where
  "stft audio =
     map (\<lambda>i. map (rfft_bin (take frame_length (drop (frame_step * i) audio))) [0..<num_bins])
         [0..<num_frames (length audio)]"

text \<open>\<open>tf.math.pow(tf.abs(stfts), 0.5)\<close>: the base is a magnitude, so never negative.\<close>

definition power_spectrogram :: "real list \<Rightarrow> real list list" where
  "power_spectrogram audio = map (map (\<lambda>z. cmod z powr (1 / 2))) (stft audio)"

text \<open>\<open>reduce_mean\<close> and \<open>reduce_std\<close> along axis 1: per time frame, over its bins;
  the standard deviation is the population one.\<close>

definition reduce_mean :: "real list \<Rightarrow> real" where
  "reduce_mean row = sum_list row / real (length row)"

definition reduce_std :: "real list \<Rightarrow> real" where
  "reduce_std row = sqrt (reduce_mean (map (\<lambda>v. (v - reduce_mean row)\<^sup>2) row))"

definition normalise_frame :: "real list \<Rightarrow> tfloat list" where
  "normalise_frame row = map (\<lambda>v. tf_divide (v - reduce_mean row) (reduce_std row)) row"

definition normalised_spectrogram :: "real list \<Rightarrow> tfloat list list" where
  "normalised_spectrogram audio = map normalise_frame (power_spectrogram audio)"

text \<open>\<open>tf.pad(x, [[0, after], [0, 0]], "CONSTANT")\<close> on a matrix of \<open>num_bins\<close> columns:
  \<open>after\<close> rows of zeros below.\<close>

definition tf_pad_rows :: "nat \<Rightarrow> tfloat list list \<Rightarrow> tfloat list list" where
  "tf_pad_rows after x = x @ replicate after (replicate num_bins (Val 0))"

definition path_to_audio :: "real list \<Rightarrow> tfloat list list" where
  "path_to_audio audio = take pad_len (tf_pad_rows pad_len (normalised_spectrogram audio))"


section \<open>DisplayOutputs\<close>

text \<open>
  \<^verbatim>\<open>
  def on_epoch_end(self, epoch, logs=None):
      if epoch % 5 != 0:
          return
      source = self.batch["source"]
      target = self.batch["target"].numpy()
      bs = tf.shape(source)[0]
      preds = self.model.generate(source, self.target_start_token_idx)
      preds = preds.numpy()
      for i in range(bs):
          target_text = "".join([self.idx_to_char[_] for _ in target[i, :]])
          prediction = ""
          for idx in preds[i, :]:
              prediction += self.idx_to_char[idx]
              if idx == self.target_end_token_idx:
                  break
          print(f"target:     {target_text.replace('-','')}")
          print(f"prediction: {prediction}\n")
  \<close>
  The model's \<open>generate\<close> is not defined in the notebook; it is the parameter
  \<open>generate\<close>. The effects of the callback are the calls of \<open>generate\<close> and the
  strings given to \<open>print\<close>, both recorded in the state.
\<close>

record 'src batch =
  batch_source :: "'src list"
  batch_target :: "int list list"

record 'src DisplayOutputs =
  batch :: "'src batch"
  target_start_token_idx :: int
  target_end_token_idx :: int
  idx_to_char :: "pystr list"

record console =
  generate_calls :: nat
  printed :: "pystr list"

text \<open>\<open>"".join([idx_to_char[_] for _ in row])\<close>.\<close>

fun decode_row :: "pystr list \<Rightarrow> int list \<Rightarrow> py_error + pystr" where
  "decode_row toks [] = Inr []"
| "decode_row toks (i # rest) =
     (case list_get toks i of
        Inl e \<Rightarrow> Inl e
      | Inr tok \<Rightarrow>
          (case decode_row toks rest of
             Inl e \<Rightarrow> Inl e
           | Inr s \<Rightarrow> Inr (tok @ s)))"

text \<open>The inner loop: append the token of each index, leave after the end token.\<close>

fun predict_loop :: "pystr list \<Rightarrow> int \<Rightarrow> int list \<Rightarrow> pystr \<Rightarrow> py_error + pystr" where
  "predict_loop toks end_idx [] prediction = Inr prediction"
| "predict_loop toks end_idx (i # rest) prediction =
     (case list_get toks i of
        Inl e \<Rightarrow> Inl e
      | Inr tok \<Rightarrow>
          if i = end_idx then Inr (prediction @ tok)
          else predict_loop toks end_idx rest (prediction @ tok))"

definition str_remove :: "codepoint \<Rightarrow> pystr \<Rightarrow> pystr" where
  "str_remove c s = filter (\<lambda>x. x \<noteq> c) s"

definition target_line :: "pystr \<Rightarrow> pystr" where
  "target_line target_text = str ''target:     '' @ str_remove (of_char CHR ''-'') target_text"

definition prediction_line :: "pystr \<Rightarrow> pystr" where
  "prediction_line prediction = str ''prediction: '' @ prediction @ [10]"

text \<open>The outer loop over the rows \<open>i\<close> of \<open>range(bs)\<close>; an exception leaves the loop
  with what was printed before it.\<close>

fun display_rows ::
  "'src DisplayOutputs \<Rightarrow> int list list \<Rightarrow> int list list \<Rightarrow> nat list \<Rightarrow> console
   \<Rightarrow> console \<times> py_error option" where
  "display_rows self tgt preds [] st = (st, None)"
| "display_rows self tgt preds (i # rest) st =
     (case list_get tgt (int i) of
        Inl e \<Rightarrow> (st, Some e)
      | Inr trow \<Rightarrow>
     (case decode_row (idx_to_char self) trow of
        Inl e \<Rightarrow> (st, Some e)
      | Inr target_text \<Rightarrow>
     (case list_get preds (int i) of
        Inl e \<Rightarrow> (st, Some e)
      | Inr prow \<Rightarrow>
     (case predict_loop (idx_to_char self) (target_end_token_idx self) prow [] of
        Inl e \<Rightarrow> (st, Some e)
      | Inr prediction \<Rightarrow>
          display_rows self tgt preds rest
            (st\<lparr>printed := printed st @ [target_line target_text, prediction_line prediction]\<rparr>)))))"

definition on_epoch_end ::
  "('src list \<Rightarrow> int \<Rightarrow> int list list) \<Rightarrow> 'src DisplayOutputs \<Rightarrow> int \<Rightarrow> console
   \<Rightarrow> console \<times> py_error option" where
  "on_epoch_end generate self epoch st =
     (if epoch mod 5 \<noteq> 0 then (st, None)
      else
        let source = batch_source (batch self);
            target = batch_target (batch self);
            bs = length source;
            preds = generate source (target_start_token_idx self);
            st1 = st\<lparr>generate_calls := generate_calls st + 1\<rparr>
        in display_rows self target preds [0..<bs] st1)"

text \<open>The indices of a row up to and including the first end token, the whole row when
  there is none: the wording of the specification, to compare the loop with.\<close>

definition upto_first_end :: "int \<Rightarrow> int list \<Rightarrow> int list" where
  "upto_first_end end_idx row =
     takeWhile (\<lambda>i. i \<noteq> end_idx) row @ take 1 (dropWhile (\<lambda>i. i \<noteq> end_idx) row)"

definition valid_index :: "'a list \<Rightarrow> int \<Rightarrow> bool" where
  "valid_index xs i = (0 \<le> i \<and> i < int (length xs))"


section \<open>CustomSchedule\<close>

text \<open>
  \<^verbatim>\<open>
  def calculate_lr(self, epoch):
      warmup_lr = (
          self.init_lr
          + ((self.lr_after_warmup - self.init_lr) / (self.warmup_epochs - 1)) * epoch
      )
      decay_lr = tf.math.maximum(
          self.final_lr,
          self.lr_after_warmup
          - (epoch - self.warmup_epochs)
          * (self.lr_after_warmup - self.final_lr)
          / (self.decay_epochs),
      )
      return tf.math.minimum(warmup_lr, decay_lr)

  def __call__(self, step):
      epoch = step // self.steps_per_epoch
      return self.calculate_lr(epoch)
  \<close>
  Learning rates are real numbers, steps and epochs integers (\<open>//\<close> is the flooring
  division, as \<open>div\<close> on \<open>int\<close>). A zero divisor raises ZeroDivisionError between
  Python numbers and gives an infinity or NaN on a tensor; neither is a learning rate,
  and both are the error branch of the model.
\<close>

record CustomSchedule =
  init_lr :: real
  lr_after_warmup :: real
  final_lr :: real
  warmup_epochs :: int
  decay_epochs :: int
  steps_per_epoch :: int

definition calculate_lr :: "CustomSchedule \<Rightarrow> int \<Rightarrow> py_error + real" where
  "calculate_lr self epoch =
     (if warmup_epochs self - 1 = 0 then Inl ZeroDivisionError
      else if decay_epochs self = 0 then Inl ZeroDivisionError
      else
        let warmup_lr =
              init_lr self
              + ((lr_after_warmup self - init_lr self) / of_int (warmup_epochs self - 1))
                * of_int epoch;
            decay_lr =
              max (final_lr self)
                  (lr_after_warmup self
                   - of_int (epoch - warmup_epochs self)
                     * (lr_after_warmup self - final_lr self)
                     / of_int (decay_epochs self))
        in Inr (min warmup_lr decay_lr))"

definition CustomSchedule_call :: "CustomSchedule \<Rightarrow> int \<Rightarrow> py_error + real" where
  "CustomSchedule_call self step =
     (if steps_per_epoch self = 0 then Inl ZeroDivisionError
      else calculate_lr self (step div steps_per_epoch self))"

text \<open>The schedule the notebook constructs; \<open>steps_per_epoch\<close> is \<open>len(ds)\<close> there.\<close>

definition script_schedule :: "int \<Rightarrow> CustomSchedule" where
  "script_schedule spe =
     \<lparr>init_lr = 1 / 100000, lr_after_warmup = 1 / 1000, final_lr = 1 / 100000,
      warmup_epochs = 15, decay_epochs = 85, steps_per_epoch = spe\<rparr>"

text \<open>The straight line through \<open>(x0, y0)\<close> and \<open>(x1, y1)\<close>: a ramp from \<open>y0\<close> at
  \<open>x0\<close> to \<open>y1\<close> at \<open>x1\<close>.\<close>

definition ramp :: "real \<Rightarrow> real \<Rightarrow> real \<Rightarrow> real \<Rightarrow> real \<Rightarrow> real" where
  "ramp x0 y0 x1 y1 x = y0 + (y1 - y0) * (x - x0) / (x1 - x0)"

text \<open>The schedule in the words of the specification: the warm-up ramp rises from
  \<open>init_lr\<close> at epoch 0 and reaches \<open>lr_after_warmup\<close> at epoch \<open>warmup_epochs\<close>; the
  decay ramp falls from \<open>lr_after_warmup\<close> at epoch \<open>warmup_epochs\<close> to \<open>final_lr\<close>
  \<open>decay_epochs\<close> epochs later and is clamped below at \<open>final_lr\<close>.\<close>

definition spec_warmup_ramp :: "CustomSchedule \<Rightarrow> int \<Rightarrow> real" where
  "spec_warmup_ramp self epoch =
     ramp 0 (init_lr self) (of_int (warmup_epochs self)) (lr_after_warmup self) (of_int epoch)"

definition spec_decay_ramp :: "CustomSchedule \<Rightarrow> int \<Rightarrow> real" where
  "spec_decay_ramp self epoch =
     max (final_lr self)
         (ramp (of_int (warmup_epochs self)) (lr_after_warmup self)
               (of_int (warmup_epochs self + decay_epochs self)) (final_lr self)
               (of_int epoch))"

definition spec_schedule :: "CustomSchedule \<Rightarrow> int \<Rightarrow> real" where
  "spec_schedule self step =
     min (spec_warmup_ramp self (step div steps_per_epoch self))
         (spec_decay_ramp self (step div steps_per_epoch self))"

text \<open>The warm-up ramp the code computes: it reaches \<open>lr_after_warmup\<close> one epoch
  earlier, at epoch \<open>warmup_epochs - 1\<close>.\<close>

definition code_warmup_ramp :: "CustomSchedule \<Rightarrow> int \<Rightarrow> real" where
  "code_warmup_ramp self epoch =
     ramp 0 (init_lr self) (of_int (warmup_epochs self - 1)) (lr_after_warmup self)
          (of_int epoch)"


section \<open>Properties of get_data\<close>

lemma split_on_nonempty: "split_on sep xs \<noteq> []"
  by (induction xs) (auto split: list.splits)

lemma split_on_no_sep: "sep \<notin> set xs \<Longrightarrow> split_on sep xs = [xs]"
  by (induction xs) auto

lemma split_on_append:
  "split_on sep (xs @ sep # ys) = split_on sep xs @ split_on sep ys"
proof (induction xs)
  case Nil
  show ?case by simp
next
  case (Cons c xs)
  obtain p ps where "split_on sep xs = p # ps"
    using split_on_nonempty[of sep xs] by (cases "split_on sep xs") auto
  with Cons.IH show ?case by simp
qed

lemma last_split_on_append:
  "last (split_on sep (xs @ sep # ys)) = last (split_on sep ys)"
  by (simp add: split_on_append split_on_nonempty)

lemma hd_split_on_append:
  "sep \<notin> set xs \<Longrightarrow> hd (split_on sep (xs @ sep # ys)) = xs"
  by (simp add: split_on_append split_on_no_sep)

text \<open>For a path \<open>dir/name.ext\<close> whose file name has no other dot, the derived id is
  the file name without its extension. In general it is the final path component up to
  its first dot.\<close>

lemma derive_id_name_ext:
  assumes "of_char CHR ''/'' \<notin> set name" "of_char CHR ''/'' \<notin> set ext"
    and "of_char CHR ''.'' \<notin> set name"
  shows "derive_id (dir @ of_char CHR ''/'' # name @ of_char CHR ''.'' # ext) = name"
proof -
  have "of_char CHR ''/'' \<notin> set (name @ of_char CHR ''.'' # ext)"
    using assms(1,2) by simp
  then have "last (split_on (of_char CHR ''/'') (dir @ of_char CHR ''/'' # name @ of_char CHR ''.'' # ext))
             = name @ of_char CHR ''.'' # ext"
    by (simp add: last_split_on_append split_on_no_sep)
  then show ?thesis
    using hd_split_on_append[OF assms(3), of ext] by (simp add: derive_id_def)
qed

lemma get_data_loop_present:
  "\<forall>w\<in>set ws. derive_id w \<in> dom m \<Longrightarrow>
   get_data_loop m maxlen ws acc =
     Inr (acc @ map (\<lambda>w. \<lparr>sample_audio = w, sample_text = the (m (derive_id w))\<rparr>)
                  (filter (\<lambda>w. int (length (the (m (derive_id w)))) < maxlen) ws))"
  by (induction ws arbitrary: acc) (auto simp: Let_def split: option.splits)

lemma get_data_loop_absent:
  "\<exists>w\<in>set ws. derive_id w \<notin> dom m \<Longrightarrow>
   \<exists>k. k \<notin> dom m \<and> k \<in> derive_id ` set ws \<and> get_data_loop m maxlen ws acc = Inl (KeyError k)"
proof (induction ws arbitrary: acc)
  case Nil
  then show ?case by simp
next
  case (Cons w ws)
  show ?case
  proof (cases "m (derive_id w)")
    case None
    then show ?thesis by (auto simp: Let_def)
  next
    case (Some t)
    with Cons.prems have "\<exists>w\<in>set ws. derive_id w \<notin> dom m" by auto
    from Cons.IH[OF this] have "\<And>acc. \<exists>k. k \<notin> dom m \<and> k \<in> derive_id ` set ws \<and>
        get_data_loop m maxlen ws acc = Inl (KeyError k)" .
    then show ?thesis using Some by (simp add: Let_def) blast
  qed
qed

text \<open>
  C9. When the mapping has an entry for the derived id of every wav path, \<open>get_data\<close>
  returns, in the order of the wav list, exactly the records of the paths whose
  transcript is strictly shorter than \<open>maxlen\<close>; the other paths leave no record.
\<close>

theorem get_data_filters:
  assumes "\<forall>w \<in> set wavs. derive_id w \<in> dom id_to_text"
  shows "get_data wavs id_to_text maxlen =
           Inr (map (\<lambda>w. \<lparr>sample_audio = w, sample_text = the (id_to_text (derive_id w))\<rparr>)
                 (filter (\<lambda>w. int (length (the (id_to_text (derive_id w)))) < maxlen) wavs))"
  unfolding get_data_def using get_data_loop_present[OF assms, of maxlen "[]"] by simp

theorem get_data_filters_witness:
  "get_data [str ''wavs/a.wav'', str ''wavs/b.wav'', str ''wavs/c.wav'']
     [str ''a'' \<mapsto> str ''hello'', str ''b'' \<mapsto> str ''a long text'', str ''c'' \<mapsto> str ''hi'']
     6
   = Inr [\<lparr>sample_audio = str ''wavs/a.wav'', sample_text = str ''hello''\<rparr>,
          \<lparr>sample_audio = str ''wavs/c.wav'', sample_text = str ''hi''\<rparr>]"
proof -
  let ?m = "[str ''a'' \<mapsto> str ''hello'', str ''b'' \<mapsto> str ''a long text'',
             str ''c'' \<mapsto> str ''hi'']"
  have ids: "derive_id (str ''wavs/a.wav'') = str ''a''"
    "derive_id (str ''wavs/b.wav'') = str ''b''"
    "derive_id (str ''wavs/c.wav'') = str ''c''"
    by (simp_all add: derive_id_def str_def)
  have present: "\<forall>w \<in> set [str ''wavs/a.wav'', str ''wavs/b.wav'', str ''wavs/c.wav''].
                   derive_id w \<in> dom ?m"
    by (simp add: ids)
  from get_data_filters[OF present, of 6] show ?thesis
    by (simp add: ids) (simp add: str_def)
qed

text \<open>
  C10. When some wav path has a derived id with no entry in the mapping, \<open>get_data\<close>
  ends in a KeyError for a derived id that the mapping lacks, and returns no list: the
  lookup \<open>id_to_text[id]\<close> is not guarded and the file is not skipped.
\<close>

theorem get_data_KeyError:
  assumes "\<exists>w \<in> set wavs. derive_id w \<notin> dom id_to_text"
  shows "\<exists>k. k \<notin> dom id_to_text \<and> k \<in> derive_id ` set wavs \<and>
             get_data wavs id_to_text maxlen = Inl (KeyError k)"
  unfolding get_data_def using get_data_loop_absent[OF assms, of maxlen "[]"] by blast

theorem get_data_KeyError_witness:
  "derive_id (str ''wavs/z.wav'') \<notin> dom [str ''a'' \<mapsto> str ''hello''] \<and>
   (\<exists>k. k \<notin> dom [str ''a'' \<mapsto> str ''hello''] \<and>
        k \<in> derive_id ` set [str ''wavs/a.wav'', str ''wavs/z.wav''] \<and>
        get_data [str ''wavs/a.wav'', str ''wavs/z.wav''] [str ''a'' \<mapsto> str ''hello''] 50
          = Inl (KeyError k))"
proof -
  have absent: "derive_id (str ''wavs/z.wav'') \<notin> dom [str ''a'' \<mapsto> str ''hello'']"
    by (simp add: derive_id_def str_def)
  then have "\<exists>w \<in> set [str ''wavs/a.wav'', str ''wavs/z.wav''].
               derive_id w \<notin> dom [str ''a'' \<mapsto> str ''hello'']"
    by simp
  from get_data_KeyError[OF this, of 50] absent show ?thesis by blast
qed


section \<open>Properties of VectorizeChar\<close>

lemma fill_index_Nil: "fill_index [] d = d"
  by (simp add: fill_index_def)

lemma fill_index_Cons: "fill_index ((i, ch) # ps) d = fill_index ps (d(ch \<mapsto> i))"
  by (simp add: fill_index_def)

lemma fill_index_Some:
  "fill_index ps d k = Some i \<Longrightarrow> (i, k) \<in> set ps \<or> d k = Some i"
proof (induction ps arbitrary: d)
  case Nil
  then show ?case by (simp add: fill_index_Nil)
next
  case (Cons p ps)
  obtain j ch where p: "p = (j, ch)" by (cases p)
  from Cons.prems p have "fill_index ps (d(ch \<mapsto> j)) k = Some i"
    by (simp only: fill_index_Cons)
  from Cons.IH[OF this] show ?case using p by (auto split: if_splits)
qed

lemma fill_index_dom: "dom (fill_index ps d) = dom d \<union> snd ` set ps"
proof (induction ps arbitrary: d)
  case Nil
  show ?case by (simp add: fill_index_Nil)
next
  case (Cons p ps)
  obtain j ch where p: "p = (j, ch)" by (cases p)
  show ?case unfolding p fill_index_Cons Cons.IH by auto
qed

lemma enumerate_py_entry:
  "(i, k) \<in> set (enumerate_py xs) \<Longrightarrow> 0 \<le> i \<and> i < int (length xs) \<and> xs ! nat i = k"
  unfolding enumerate_py_def by (auto simp: in_set_zip)

lemma snd_enumerate_py: "snd ` set (enumerate_py xs) = set xs"
  unfolding enumerate_py_def by (simp flip: set_map)

lemma length_vocabulary: "length vocabulary = 34"
  by (simp add: vocabulary_def str_def)

lemma char_to_idx_range:
  assumes "char_to_idx (VectorizeChar_init n) ch = Some i"
  shows "0 \<le> i \<and> i < 34 \<and> vocabulary ! nat i = ch"
proof -
  from assms have "fill_index (enumerate_py vocabulary) Map.empty ch = Some i"
    by (simp add: VectorizeChar_init_def)
  then have "(i, ch) \<in> set (enumerate_py vocabulary)"
    by (auto dest: fill_index_Some)
  then show ?thesis
    using enumerate_py_entry[of i ch vocabulary] by (simp add: length_vocabulary)
qed

lemma char_to_idx_defined:
  "ch \<in> set vocabulary \<Longrightarrow> \<exists>i. char_to_idx (VectorizeChar_init n) ch = Some i"
  using fill_index_dom[of "enumerate_py vocabulary" Map.empty]
  by (auto simp: VectorizeChar_init_def snd_enumerate_py dom_def)

lemma lookup_range:
  "0 \<le> dict_get (char_to_idx (VectorizeChar_init n)) ch 1 \<and>
   dict_get (char_to_idx (VectorizeChar_init n)) ch 1 < 34"
  using char_to_idx_range[of n ch]
  by (auto simp: dict_get_def split: option.splits)

lemma lookup_decode:
  "ch \<in> set vocabulary \<Longrightarrow>
   vocabulary ! nat (dict_get (char_to_idx (VectorizeChar_init n)) ch 1) = ch"
  using char_to_idx_range[of n ch] char_to_idx_defined[of ch n]
  by (auto simp: dict_get_def split: option.splits)

lemma lookup_start: "dict_get (char_to_idx (VectorizeChar_init n)) 60 1 = 2"
  by (simp add: dict_get_def VectorizeChar_init_def vocabulary_def str_def enumerate_py_def
      fill_index_def upt_rec numeral_nat)

lemma lookup_end: "dict_get (char_to_idx (VectorizeChar_init n)) 62 1 = 3"
  by (simp add: dict_get_def VectorizeChar_init_def vocabulary_def str_def enumerate_py_def
      fill_index_def upt_rec numeral_nat)

lemma list_repeat_zero: "list_repeat [0::int] k = replicate (nat k) 0"
  by (induction "nat k" arbitrary: k) (simp_all add: list_repeat_def replicate_app_Cons_same)

text \<open>For \<open>max_len \<ge> 2\<close> the result is the start index, the indices of the lower-cased
  text cut to \<open>max_len - 2\<close> characters, the end index and the padding.\<close>

lemma VectorizeChar_call_unfold:
  assumes "2 \<le> n"
  shows "VectorizeChar_call lower (VectorizeChar_init n) txt =
           2 # map (\<lambda>ch. dict_get (char_to_idx (VectorizeChar_init n)) ch 1)
                   (take (nat (n - 2)) (lower txt))
             @ 3 # replicate (nat (n - 2) - length (lower txt)) 0"
proof -
  have n: "max_len (VectorizeChar_init n) = n"
    by (simp add: VectorizeChar_init_def)
  have pad: "nat (n - int (length (str ''<'' @ take (nat (n - 2)) (lower txt) @ str ''>'')))
             = nat (n - 2) - length (lower txt)"
    using assms by (auto simp: str_def min_def)
  show ?thesis
    using assms
    by (simp only: VectorizeChar_call_def Let_def n slice_to_def list_repeat_zero pad if_True
        diff_ge_0_iff_ge)
       (simp add: str_def lookup_start lookup_end)
qed

text \<open>
  C1. For every transcript and every \<open>max_len \<ge> 2\<close> (200 in the notebook), the result
  of \<open>VectorizeChar\<close> has exactly \<open>max_len\<close> elements, its first element is the start
  index 2 and every element is in \<open>[0, 34)\<close>; and when the lower-cased transcript has
  length \<open>L \<le> max_len - 2\<close>, the element at position \<open>L + 1\<close> is the end index 3 and
  every later element is the pad index 0.
\<close>

theorem VectorizeChar_call_shape:
  assumes "2 \<le> n"
  shows "length (VectorizeChar_call lower (VectorizeChar_init n) txt) = nat n \<and>
         VectorizeChar_call lower (VectorizeChar_init n) txt ! 0 = 2 \<and>
         (\<forall>x \<in> set (VectorizeChar_call lower (VectorizeChar_init n) txt). 0 \<le> x \<and> x < 34) \<and>
         (int (length (lower txt)) \<le> n - 2 \<longrightarrow>
            VectorizeChar_call lower (VectorizeChar_init n) txt ! (length (lower txt) + 1) = 3 \<and>
            (\<forall>j. length (lower txt) + 1 < j \<and> j < nat n \<longrightarrow>
                 VectorizeChar_call lower (VectorizeChar_init n) txt ! j = 0))"
proof -
  let ?g = "\<lambda>ch. dict_get (char_to_idx (VectorizeChar_init n)) ch 1"
  let ?t = "take (nat (n - 2)) (lower txt)"
  let ?pad = "replicate (nat (n - 2) - length (lower txt)) (0::int)"
  let ?out = "VectorizeChar_call lower (VectorizeChar_init n) txt"
  have out: "?out = 2 # map ?g ?t @ 3 # ?pad"
    by (rule VectorizeChar_call_unfold[OF assms])
  have len: "length ?out = nat n"
    using assms unfolding out by (simp add: min_def)
  have first: "?out ! 0 = 2"
    unfolding out by simp
  have range: "\<forall>x \<in> set ?out. 0 \<le> x \<and> x < 34"
    unfolding out using lookup_range[of n] by auto
  have tail: "?out ! (length (lower txt) + 1) = 3 \<and>
              (\<forall>j. length (lower txt) + 1 < j \<and> j < nat n \<longrightarrow> ?out ! j = 0)"
    if fits: "int (length (lower txt)) \<le> n - 2"
  proof -
    from fits have t: "?t = lower txt" by simp
    have out': "?out = (2 # map ?g (lower txt)) @ 3 # ?pad"
      unfolding out t by simp
    have l: "length (2 # map ?g (lower txt)) = length (lower txt) + 1" by simp
    have e: "?out ! (length (lower txt) + 1) = 3"
      unfolding out' by (metis l nth_append_length)
    have "?out ! j = 0" if j: "length (lower txt) + 1 < j" "j < nat n" for j
    proof -
      have "?out ! j = ((2 # map ?g (lower txt)) @ 3 # ?pad) ! j"
        by (simp only: out')
      also have "\<dots> = (3 # ?pad) ! (j - (length (lower txt) + 1))"
        using j by (simp only: nth_append l) simp
      also have "\<dots> = ?pad ! (j - (length (lower txt) + 1) - 1)"
        using j by (simp add: nth_Cons')
      also have "\<dots> = 0"
        using j fits assms by (intro nth_replicate) linarith
      finally show ?thesis .
    qed
    with e show ?thesis by blast
  qed
  from len first range tail show ?thesis by blast
qed

theorem VectorizeChar_call_shape_witness:
  "(2::int) \<le> 6 \<and> int (length (ascii_lower (str ''Hi!''))) \<le> 6 - 2 \<and>
   length (VectorizeChar_call ascii_lower (VectorizeChar_init 6) (str ''Hi!'')) = 6 \<and>
   VectorizeChar_call ascii_lower (VectorizeChar_init 6) (str ''Hi!'') ! 0 = 2 \<and>
   VectorizeChar_call ascii_lower (VectorizeChar_init 6) (str ''Hi!'') ! 4 = 3 \<and>
   VectorizeChar_call ascii_lower (VectorizeChar_init 6) (str ''Hi!'') ! 5 = 0"
proof -
  let ?out = "VectorizeChar_call ascii_lower (VectorizeChar_init 6) (str ''Hi!'')"
  have h: "(2::int) \<le> 6" by simp
  have L: "length (ascii_lower (str ''Hi!'')) = 3"
    by (simp add: ascii_lower_def str_def)
  have fits: "int (length (ascii_lower (str ''Hi!''))) \<le> 6 - 2"
    by (simp add: L)
  note t = VectorizeChar_call_shape[OF h, of ascii_lower "str ''Hi!''"]
  from t have a: "length ?out = nat 6" and b: "?out ! 0 = 2" by blast+
  from t fits have c: "?out ! (length (ascii_lower (str ''Hi!'')) + 1) = 3"
    and d: "\<forall>j. length (ascii_lower (str ''Hi!'')) + 1 < j \<and> j < nat 6 \<longrightarrow> ?out ! j = 0"
    by blast+
  from d have e: "?out ! 5 = 0" by (simp add: L)
  from a b c e h fits show ?thesis by (simp add: L)
qed

text \<open>
  C2. Round trip: when the lower-cased transcript has length \<open>L \<le> max_len - 2\<close> and
  all its characters are in the vocabulary, mapping the elements 1 to \<open>L\<close> of the
  result (the result without the start index, the end index and the padding) back
  through the vocabulary list gives the lower-cased transcript.
\<close>

theorem VectorizeChar_roundtrip:
  assumes "int (length (lower txt)) \<le> n - 2"
    and "set (lower txt) \<subseteq> set vocabulary"
  shows "decode_indices (get_vocabulary (VectorizeChar_init n))
           (take (length (lower txt))
              (drop 1 (VectorizeChar_call lower (VectorizeChar_init n) txt)))
         = lower txt"
proof -
  let ?g = "\<lambda>ch. dict_get (char_to_idx (VectorizeChar_init n)) ch 1"
  from assms(1) have n: "2 \<le> n" by linarith
  from assms(1) have t: "take (nat (n - 2)) (lower txt) = lower txt" by simp
  have "take (length (lower txt))
          (drop 1 (VectorizeChar_call lower (VectorizeChar_init n) txt)) = map ?g (lower txt)"
    unfolding VectorizeChar_call_unfold[OF n] t by simp
  moreover have "map (\<lambda>i. vocabulary ! nat i) (map ?g (lower txt)) = lower txt"
    using assms(2) by (simp add: map_idI lookup_decode subset_iff)
  ultimately show ?thesis
    by (simp add: decode_indices_def get_vocabulary_def VectorizeChar_init_def)
qed

theorem VectorizeChar_roundtrip_witness:
  "int (length (ascii_lower (str ''Hi, you?''))) \<le> 200 - 2 \<and>
   decode_indices (get_vocabulary (VectorizeChar_init 200))
     (take 8 (drop 1 (VectorizeChar_call ascii_lower (VectorizeChar_init 200) (str ''Hi, you?''))))
   = str ''hi, you?''"
proof -
  have low: "ascii_lower (str ''Hi, you?'') = str ''hi, you?''"
    by (simp add: ascii_lower_def str_def)
  have L: "length (str ''hi, you?'') = 8"
    by (simp add: str_def)
  have fits: "int (length (ascii_lower (str ''Hi, you?''))) \<le> 200 - 2"
    by (simp add: low L)
  have voc: "set (ascii_lower (str ''Hi, you?'')) \<subseteq> set vocabulary"
    unfolding low by (simp add: str_def vocabulary_def)
  from VectorizeChar_roundtrip[of ascii_lower "str ''Hi, you?''" 200, OF fits voc] fits show ?thesis
    by (simp only: low L)
qed

text \<open>The example of the specification, run: \<open>a\<close> and \<open>b\<close> are the entries 4 and 5 of
  the vocabulary, after the four control tokens 0 to 3.\<close>

lemma VectorizeChar_ab_ascii:
  "VectorizeChar_call ascii_lower (VectorizeChar_init 6) (str ''ab'') = [2, 4, 5, 3, 0, 0]"
  by code_simp

text \<open>
  C3, as stated: \<open>VectorizeChar\<close> with \<open>max_len = 6\<close> maps \<open>"ab"\<close> to
  \<open>[2, 5, 6, 3, 0, 0]\<close>. The code does not.
\<close>

theorem VectorizeChar_ab_counterexample:
  "VectorizeChar_call ascii_lower (VectorizeChar_init 6) (str ''ab'') \<noteq> [2, 5, 6, 3, 0, 0]"
  by (simp add: VectorizeChar_ab_ascii)

text \<open>
  C3, amended: \<open>VectorizeChar\<close> with \<open>max_len = 6\<close> maps \<open>"ab"\<close> to
  \<open>[2, 4, 5, 3, 0, 0]\<close> (lower-casing leaves \<open>"ab"\<close> as it is).
\<close>

theorem VectorizeChar_ab:
  assumes "lower (str ''ab'') = str ''ab''"
  shows "VectorizeChar_call lower (VectorizeChar_init 6) (str ''ab'') = [2, 4, 5, 3, 0, 0]"
proof -
  have "ascii_lower (str ''ab'') = str ''ab''"
    by (simp add: ascii_lower_def str_def)
  with assms have "VectorizeChar_call lower (VectorizeChar_init 6) (str ''ab'')
      = VectorizeChar_call ascii_lower (VectorizeChar_init 6) (str ''ab'')"
    by (simp only: VectorizeChar_call_def)
  then show ?thesis by (simp only: VectorizeChar_ab_ascii)
qed

theorem VectorizeChar_ab_witness:
  "ascii_lower (str ''ab'') = str ''ab'' \<and>
   VectorizeChar_call ascii_lower (VectorizeChar_init 6) (str ''ab'') = [2, 4, 5, 3, 0, 0]"
proof -
  have h: "ascii_lower (str ''ab'') = str ''ab''"
    by (simp add: ascii_lower_def str_def)
  from VectorizeChar_ab[of ascii_lower, OF h] h show ?thesis by simp
qed


section \<open>Properties of path_to_audio\<close>

lemma length_normalised_spectrogram:
  "length (normalised_spectrogram audio) = num_frames (length audio)"
  by (simp add: normalised_spectrogram_def power_spectrogram_def stft_def)

text \<open>
  C4. For every waveform, whatever the number \<open>n\<close> of frames its transform has, the
  result of \<open>path_to_audio\<close> has exactly 2754 time frames: 2754 frames of zeros are
  appended and the first 2754 rows kept, so the result is the first 2754 normalised
  frames followed by \<open>2754 - n\<close> frames of zeros (none when \<open>n \<ge> 2754\<close>, where the
  frames past the 2754th are dropped).
\<close>

theorem path_to_audio_frames:
  "length (path_to_audio audio) = 2754 \<and>
   length (normalised_spectrogram audio) = num_frames (length audio) \<and>
   path_to_audio audio =
     take 2754 (normalised_spectrogram audio)
     @ replicate (2754 - num_frames (length audio)) (replicate 129 (Val 0))"
  by (simp add: path_to_audio_def tf_pad_rows_def pad_len_def num_bins_def fft_length_def
      length_normalised_spectrogram min_def)

text \<open>A frame whose values are all equal has that value as its mean and a standard
  deviation of zero, and the division turns each of its bins into \<open>0 / 0\<close>.\<close>

lemma reduce_mean_const: "reduce_mean (replicate (Suc k) v) = v"
  by (simp add: reduce_mean_def sum_list_replicate del: replicate_Suc of_nat_Suc)

lemma reduce_std_const: "reduce_std (replicate (Suc k) v) = 0"
proof -
  have "map (\<lambda>x. (x - v)\<^sup>2) (replicate (Suc k) v) = replicate (Suc k) 0"
    by (simp only: map_replicate) simp
  then show ?thesis
    by (simp only: reduce_std_def reduce_mean_const) simp
qed

lemma normalise_frame_const: "normalise_frame (replicate (Suc k) v) = replicate (Suc k) NaN"
  by (simp only: normalise_frame_def reduce_mean_const reduce_std_const map_replicate)
     (simp add: tf_divide_def)

text \<open>A silent waveform has a spectrogram of zeros.\<close>

lemma rfft_bin_silent: "rfft_bin (replicate m 0) = (\<lambda>k. 0)"
  by (rule ext) (simp add: rfft_bin_def)

lemma power_spectrogram_silent:
  "power_spectrogram (replicate n 0) = replicate (num_frames n) (replicate num_bins 0)"
proof -
  have frame: "take frame_length (drop (frame_step * i) (replicate n (0::real)))
               = replicate (min frame_length (n - frame_step * i)) 0" for i
    by simp
  show ?thesis
    by (simp add: power_spectrogram_def stft_def rfft_bin_silent map_replicate_const o_def)
qed

lemma num_frames_200: "num_frames 200 = 1"
  by (simp add: num_frames_def frame_length_def)

text \<open>
  C5. The normalisation divides by the standard deviation of the frame with no guard:
  a frame of equal values has standard deviation zero and is normalised to NaN in every
  bin, and there is such a waveform, 200 samples of silence, whose one frame has the
  divisor zero and comes out of \<open>path_to_audio\<close> as 129 NaNs.
\<close>

theorem path_to_audio_zero_divisor:
  "reduce_std (replicate (Suc k) v) = 0 \<and>
   normalise_frame (replicate (Suc k) v) = replicate (Suc k) NaN \<and>
   power_spectrogram (replicate 200 0) = [replicate 129 0] \<and>
   reduce_std (hd (power_spectrogram (replicate 200 0))) = 0 \<and>
   hd (path_to_audio (replicate 200 0)) = replicate 129 NaN"
proof -
  have bins: "num_bins = Suc 128"
    by (simp add: num_bins_def fft_length_def)
  have ps: "power_spectrogram (replicate 200 0) = [replicate (Suc 128) 0]"
    by (simp add: power_spectrogram_silent num_frames_200 bins)
  have ns: "normalised_spectrogram (replicate 200 0) = [replicate (Suc 128) NaN]"
    by (simp only: normalised_spectrogram_def ps list.map normalise_frame_const)
  have out: "hd (path_to_audio (replicate 200 0)) = replicate (Suc 128) NaN"
    by (simp only: path_to_audio_def tf_pad_rows_def ns) (simp add: pad_len_def)
  have n129: "Suc 128 = 129" by simp
  from ps out reduce_std_const[of 128 0] show ?thesis
    by (simp only: reduce_std_const normalise_frame_const n129 list.sel)
qed


section \<open>Properties of DisplayOutputs\<close>

lemma list_get_valid: "valid_index xs i \<Longrightarrow> list_get xs i = Inr (xs ! nat i)"
  by (simp add: list_get_def valid_index_def)

lemma list_get_nat: "i < length xs \<Longrightarrow> list_get xs (int i) = Inr (xs ! i)"
  by (simp add: list_get_def)

lemma upto_first_end_Nil: "upto_first_end e [] = []"
  by (simp add: upto_first_end_def)

lemma upto_first_end_Cons:
  "upto_first_end e (i # rest) = (if i = e then [i] else i # upto_first_end e rest)"
  by (simp add: upto_first_end_def)

lemma upto_first_end_absent: "e \<notin> set row \<Longrightarrow> upto_first_end e row = row"
  by (induction row) (auto simp: upto_first_end_Nil upto_first_end_Cons)

lemma upto_first_end_present:
  "e \<notin> set xs \<Longrightarrow> upto_first_end e (xs @ e # ys) = xs @ [e]"
  by (induction xs) (auto simp: upto_first_end_Cons)

lemma decode_row_valid:
  "\<forall>i \<in> set row. valid_index toks i \<Longrightarrow>
   decode_row toks row = Inr (concat (map (\<lambda>i. toks ! nat i) row))"
  by (induction row) (simp_all add: list_get_valid)

text \<open>The inner loop yields the tokens of the row up to and including the first end
  token.\<close>

lemma predict_loop_upto_first_end:
  "\<forall>i \<in> set (upto_first_end e row). valid_index toks i \<Longrightarrow>
   predict_loop toks e row acc = Inr (acc @ concat (map (\<lambda>i. toks ! nat i) (upto_first_end e row)))"
proof (induction row arbitrary: acc)
  case Nil
  show ?case by (simp add: upto_first_end_Nil)
next
  case (Cons i rest)
  show ?case
  proof (cases "i = e")
    case True
    with Cons.prems show ?thesis
      by (simp add: upto_first_end_Cons list_get_valid)
  next
    case False
    with Cons.prems have v: "valid_index toks i"
      and rest: "\<forall>j \<in> set (upto_first_end e rest). valid_index toks j"
      by (simp_all add: upto_first_end_Cons)
    from Cons.IH[OF rest] v False show ?thesis
      by (simp add: upto_first_end_Cons list_get_valid)
  qed
qed

text \<open>The loop over the rows calls nothing and prints two lines per row.\<close>

lemma display_rows_calls:
  "generate_calls (fst (display_rows self tgt preds rows st)) = generate_calls st"
  by (induction rows arbitrary: st) (auto split: sum.splits)

lemma display_rows_printed:
  assumes "\<forall>i \<in> set rows. i < length tgt \<and> i < length preds"
    and "\<forall>row \<in> set tgt. \<forall>i \<in> set row. valid_index (idx_to_char self) i"
    and "\<forall>row \<in> set preds. \<forall>i \<in> set (upto_first_end (target_end_token_idx self) row).
           valid_index (idx_to_char self) i"
  shows "display_rows self tgt preds rows st =
     (st\<lparr>printed := printed st @ concat (map (\<lambda>i.
          [target_line (concat (map (\<lambda>j. idx_to_char self ! nat j) (tgt ! i))),
           prediction_line (concat (map (\<lambda>j. idx_to_char self ! nat j)
              (upto_first_end (target_end_token_idx self) (preds ! i))))]) rows)\<rparr>, None)"
  using assms(1)
proof (induction rows arbitrary: st)
  case Nil
  show ?case by simp
next
  case (Cons i rows)
  from Cons.prems have i: "i < length tgt" "i < length preds"
    and rows: "\<forall>i \<in> set rows. i < length tgt \<and> i < length preds"
    by simp_all
  from i assms(2) have t: "decode_row (idx_to_char self) (tgt ! i)
      = Inr (concat (map (\<lambda>j. idx_to_char self ! nat j) (tgt ! i)))"
    by (intro decode_row_valid) (metis nth_mem)
  from i assms(3) have p: "predict_loop (idx_to_char self) (target_end_token_idx self) (preds ! i) []
      = Inr (concat (map (\<lambda>j. idx_to_char self ! nat j)
              (upto_first_end (target_end_token_idx self) (preds ! i))))"
    by (intro predict_loop_upto_first_end[of _ _ _ "[]", simplified]) (metis nth_mem)
  show ?case
    by (simp add: list_get_nat i t p Cons.IH[OF rows])
qed

lemma vocabulary_chars: "vocabulary = str ''-#<>abcdefghijklmnopqrstuvwxyz .,?''"
  by code_simp

text \<open>
  C8. \<open>on_epoch_end\<close> returns with no call of \<open>generate\<close> and nothing printed when
  \<open>epoch mod 5\<close> is not zero, and calls \<open>generate\<close> once when it is zero. In that
  case, for a batch whose target and predictions have a row per source and whose
  indices are indices of the token list, it prints for each row, in order, the target
  line and the prediction line, the prediction being the tokens of the predicted row up
  to and including the first end token (of the whole row when it has none).
\<close>

theorem on_epoch_end_every_fifth:
  "(epoch mod 5 \<noteq> 0 \<longrightarrow> on_epoch_end generate self epoch st = (st, None)) \<and>
   (epoch mod 5 = 0 \<longrightarrow>
      generate_calls (fst (on_epoch_end generate self epoch st)) = generate_calls st + 1) \<and>
   (epoch mod 5 = 0 \<and>
    length (batch_target (batch self)) = length (batch_source (batch self)) \<and>
    length (generate (batch_source (batch self)) (target_start_token_idx self))
      = length (batch_source (batch self)) \<and>
    (\<forall>row \<in> set (batch_target (batch self)). \<forall>i \<in> set row. valid_index (idx_to_char self) i) \<and>
    (\<forall>row \<in> set (generate (batch_source (batch self)) (target_start_token_idx self)).
       \<forall>i \<in> set (upto_first_end (target_end_token_idx self) row).
         valid_index (idx_to_char self) i)
    \<longrightarrow>
      on_epoch_end generate self epoch st =
        (st\<lparr>generate_calls := generate_calls st + 1,
            printed := printed st @ concat (map (\<lambda>i.
              [target_line (concat (map (\<lambda>j. idx_to_char self ! nat j)
                 (batch_target (batch self) ! i))),
               prediction_line (concat (map (\<lambda>j. idx_to_char self ! nat j)
                 (upto_first_end (target_end_token_idx self)
                    (generate (batch_source (batch self)) (target_start_token_idx self) ! i))))])
              [0..<length (batch_source (batch self))])\<rparr>, None))"
proof -
  let ?src = "batch_source (batch self)"
  let ?tgt = "batch_target (batch self)"
  let ?preds = "generate ?src (target_start_token_idx self)"
  have skip: "on_epoch_end generate self epoch st = (st, None)" if "epoch mod 5 \<noteq> 0"
    using that by (simp add: on_epoch_end_def)
  have calls: "generate_calls (fst (on_epoch_end generate self epoch st)) = generate_calls st + 1"
    if "epoch mod 5 = 0"
    using that by (simp add: on_epoch_end_def Let_def display_rows_calls)
  have shown: "on_epoch_end generate self epoch st =
        (st\<lparr>generate_calls := generate_calls st + 1,
            printed := printed st @ concat (map (\<lambda>i.
              [target_line (concat (map (\<lambda>j. idx_to_char self ! nat j) (?tgt ! i))),
               prediction_line (concat (map (\<lambda>j. idx_to_char self ! nat j)
                 (upto_first_end (target_end_token_idx self) (?preds ! i))))])
              [0..<length ?src])\<rparr>, None)"
    if e: "epoch mod 5 = 0" and lt: "length ?tgt = length ?src" and lp: "length ?preds = length ?src"
      and vt: "\<forall>row \<in> set ?tgt. \<forall>i \<in> set row. valid_index (idx_to_char self) i"
      and vp: "\<forall>row \<in> set ?preds. \<forall>i \<in> set (upto_first_end (target_end_token_idx self) row).
                 valid_index (idx_to_char self) i"
  proof -
    have rows: "\<forall>i \<in> set [0..<length ?src]. i < length ?tgt \<and> i < length ?preds"
      using lt lp by simp
    show ?thesis
      using e by (simp add: on_epoch_end_def Let_def display_rows_printed[OF rows vt vp])
  qed
  show ?thesis
  proof (intro conjI impI)
    assume "epoch mod 5 \<noteq> 0"
    then show "on_epoch_end generate self epoch st = (st, None)" by (rule skip)
  next
    assume "epoch mod 5 = 0"
    then show "generate_calls (fst (on_epoch_end generate self epoch st)) = generate_calls st + 1"
      by (rule calls)
  next
    assume "epoch mod 5 = 0 \<and> length ?tgt = length ?src \<and> length ?preds = length ?src \<and>
      (\<forall>row \<in> set ?tgt. \<forall>i \<in> set row. valid_index (idx_to_char self) i) \<and>
      (\<forall>row \<in> set ?preds. \<forall>i \<in> set (upto_first_end (target_end_token_idx self) row).
         valid_index (idx_to_char self) i)"
    then show "on_epoch_end generate self epoch st =
        (st\<lparr>generate_calls := generate_calls st + 1,
            printed := printed st @ concat (map (\<lambda>i.
              [target_line (concat (map (\<lambda>j. idx_to_char self ! nat j) (?tgt ! i))),
               prediction_line (concat (map (\<lambda>j. idx_to_char self ! nat j)
                 (upto_first_end (target_end_token_idx self) (?preds ! i))))])
              [0..<length ?src])\<rparr>, None)"
      by (intro shown) simp_all
  qed
qed

theorem on_epoch_end_every_fifth_witness:
  "(10::int) mod 5 = 0 \<and>
   on_epoch_end (\<lambda>src start. [[2, 4, 4, 3, 7, 7], [2, 5, 6]])
     \<lparr>batch = \<lparr>batch_source = [0::nat, 1], batch_target = [[2, 4, 3, 0], [2, 5, 3, 0]]\<rparr>,
      target_start_token_idx = 2, target_end_token_idx = 3,
      idx_to_char = map (\<lambda>c. [c]) vocabulary\<rparr>
     10 \<lparr>generate_calls = 0, printed = []\<rparr>
   = (\<lparr>generate_calls = 1,
       printed = [str ''target:     <a>'', str ''prediction: <aa>'' @ [10],
                  str ''target:     <b>'', str ''prediction: <bc'' @ [10]]\<rparr>, None)"
proof -
  let ?g = "\<lambda>(src :: nat list) (start :: int). [[2, 4, 4, 3, 7, 7], [2, 5, 6 :: int]]"
  let ?self = "\<lparr>batch = \<lparr>batch_source = [0::nat, 1], batch_target = [[2, 4, 3, 0], [2, 5, 3, 0]]\<rparr>,
      target_start_token_idx = 2, target_end_token_idx = 3,
      idx_to_char = map (\<lambda>c. [c]) vocabulary\<rparr>"
  let ?st = "\<lparr>generate_calls = 0, printed = []\<rparr>"
  have cut: "upto_first_end 3 [2, 4, 4, 3, 7, 7] = [2, 4, 4, 3]"
    "upto_first_end 3 [2, 5, 6] = [2, 5, 6]"
    by (simp_all add: upto_first_end_Cons upto_first_end_Nil)
  have pre: "(10::int) mod 5 = 0 \<and>
    length (batch_target (batch ?self)) = length (batch_source (batch ?self)) \<and>
    length (?g (batch_source (batch ?self)) (target_start_token_idx ?self))
      = length (batch_source (batch ?self)) \<and>
    (\<forall>row \<in> set (batch_target (batch ?self)). \<forall>i \<in> set row. valid_index (idx_to_char ?self) i) \<and>
    (\<forall>row \<in> set (?g (batch_source (batch ?self)) (target_start_token_idx ?self)).
       \<forall>i \<in> set (upto_first_end (target_end_token_idx ?self) row).
         valid_index (idx_to_char ?self) i)"
    by (simp add: cut valid_index_def vocabulary_chars str_def)
  have rows: "[0..<length (batch_source (batch ?self))] = [0, 1]"
    by (simp add: upt_rec)
  from on_epoch_end_every_fifth[of 10 ?g ?self ?st] pre
  have "on_epoch_end ?g ?self 10 ?st =
        (?st\<lparr>generate_calls := generate_calls ?st + 1,
            printed := printed ?st @ concat (map (\<lambda>i.
              [target_line (concat (map (\<lambda>j. idx_to_char ?self ! nat j)
                 (batch_target (batch ?self) ! i))),
               prediction_line (concat (map (\<lambda>j. idx_to_char ?self ! nat j)
                 (upto_first_end (target_end_token_idx ?self)
                    (?g (batch_source (batch ?self)) (target_start_token_idx ?self) ! i))))])
              [0..<length (batch_source (batch ?self))])\<rparr>, None)"
    by blast
  then show ?thesis
    unfolding rows
    by (simp add: cut vocabulary_chars target_line_def prediction_line_def str_remove_def str_def)
qed


section \<open>Properties of CustomSchedule\<close>

text \<open>The learning rate of the notebook's schedule at an epoch, and its course over real
  arguments.\<close>

lemma calculate_lr_script:
  "calculate_lr (script_schedule spe) e =
     Inr (min (1 / 100000 + 99 / 100000 / 14 * of_int e)
              (max (1 / 100000) (1 / 1000 - (of_int e - 15) * (99 / 100000) / 85)))"
  by (simp add: calculate_lr_def script_schedule_def Let_def)

lemma lr_warmup_mono:
  fixes x y :: real
  assumes "x \<le> y" "y \<le> 14"
  shows "min (1 / 100000 + 99 / 100000 / 14 * x)
             (max (1 / 100000) (1 / 1000 - (x - 15) * (99 / 100000) / 85))
         \<le> min (1 / 100000 + 99 / 100000 / 14 * y)
               (max (1 / 100000) (1 / 1000 - (y - 15) * (99 / 100000) / 85))"
  using assms by argo

lemma lr_peak_bound:
  fixes x :: real
  assumes "x \<le> 14 \<or> x = 15"
  shows "min (1 / 100000 + 99 / 100000 / 14 * x)
             (max (1 / 100000) (1 / 1000 - (x - 15) * (99 / 100000) / 85))
         \<le> 1 / 1000"
  using assms by argo

lemma lr_decay_antimono:
  fixes x y :: real
  assumes "15 \<le> x" "x \<le> y"
  shows "min (1 / 100000 + 99 / 100000 / 14 * y)
             (max (1 / 100000) (1 / 1000 - (y - 15) * (99 / 100000) / 85))
         \<le> min (1 / 100000 + 99 / 100000 / 14 * x)
               (max (1 / 100000) (1 / 1000 - (x - 15) * (99 / 100000) / 85))"
  using assms by argo

lemma lr_floor:
  fixes x :: real
  assumes "0 \<le> x"
  shows "1 / 100000 \<le> min (1 / 100000 + 99 / 100000 / 14 * x)
             (max (1 / 100000) (1 / 1000 - (x - 15) * (99 / 100000) / 85))"
  using assms by argo

lemma lr_warmup_window:
  fixes e1 e2 :: int
  assumes "e1 \<le> e2" "e2 \<le> 15"
    and "calculate_lr (script_schedule spe) e1 = Inr r1"
    and "calculate_lr (script_schedule spe) e2 = Inr r2"
  shows "r1 \<le> r2"
proof (cases "e2 \<le> 14")
  case True
  with assms(1) have "(of_int e1 :: real) \<le> of_int e2" "(of_int e2 :: real) \<le> 14"
    by simp_all
  from lr_warmup_mono[OF this] assms(3,4) show ?thesis
    by (simp only: calculate_lr_script sum.inject)
next
  case False
  with assms(2) have e2: "e2 = 15" by simp
  from assms(1) e2 have "e1 \<le> 14 \<or> e1 = 15" by linarith
  then have "(of_int e1 :: real) \<le> 14 \<or> (of_int e1 :: real) = 15"
    by (metis of_int_le_iff of_int_numeral)
  from lr_peak_bound[OF this] assms(3) have "r1 \<le> 1 / 1000"
    by (simp only: calculate_lr_script sum.inject)
  moreover from assms(4) have "r2 = 1 / 1000"
    unfolding e2 calculate_lr_script by simp
  ultimately show ?thesis by simp
qed

lemma lr_decay_window:
  fixes e1 e2 :: int
  assumes "15 \<le> e1" "e1 \<le> e2"
    and "calculate_lr (script_schedule spe) e1 = Inr r1"
    and "calculate_lr (script_schedule spe) e2 = Inr r2"
  shows "r2 \<le> r1"
proof -
  from assms(1,2) have "(15 :: real) \<le> of_int e1" "(of_int e1 :: real) \<le> of_int e2"
    by simp_all
  from lr_decay_antimono[OF this] assms(3,4) show ?thesis
    by (simp only: calculate_lr_script sum.inject)
qed

lemma lr_never_below_final:
  fixes e :: int
  assumes "0 \<le> e" and "calculate_lr (script_schedule spe) e = Inr r"
  shows "1 / 100000 \<le> r"
proof -
  from assms(1) have "(0 :: real) \<le> of_int e" by simp
  from lr_floor[OF this] assms(2) show ?thesis
    by (simp only: calculate_lr_script sum.inject)
qed

text \<open>
  C6. With the parameters of the notebook (\<open>init_lr = 0.00001\<close>,
  \<open>lr_after_warmup = 0.001\<close>, \<open>final_lr = 0.00001\<close>, 15 warm-up and 85 decay epochs),
  \<open>calculate_lr\<close> returns a rate at every epoch; the rate is \<open>init_lr\<close> at epoch 0,
  \<open>lr_after_warmup\<close> at epoch 15 and \<open>final_lr\<close> at epoch 100; it does not decrease
  from one epoch to a later one over the warm-up window (epochs 0 to 15), does not
  increase from epoch 15 on, and is at least \<open>final_lr\<close> at every epoch \<open>e \<ge> 0\<close>.
\<close>

theorem calculate_lr_script_schedule:
  "(\<exists>r. calculate_lr (script_schedule spe) e = Inr r) \<and>
   calculate_lr (script_schedule spe) 0 = Inr (init_lr (script_schedule spe)) \<and>
   calculate_lr (script_schedule spe) 15 = Inr (lr_after_warmup (script_schedule spe)) \<and>
   calculate_lr (script_schedule spe) 100 = Inr (final_lr (script_schedule spe)) \<and>
   (\<forall>e1 e2 r1 r2. 0 \<le> e1 \<and> e1 \<le> e2 \<and> e2 \<le> 15 \<and>
        calculate_lr (script_schedule spe) e1 = Inr r1 \<and>
        calculate_lr (script_schedule spe) e2 = Inr r2 \<longrightarrow> r1 \<le> r2) \<and>
   (\<forall>e1 e2 r1 r2. 15 \<le> e1 \<and> e1 \<le> e2 \<and>
        calculate_lr (script_schedule spe) e1 = Inr r1 \<and>
        calculate_lr (script_schedule spe) e2 = Inr r2 \<longrightarrow> r2 \<le> r1) \<and>
   (\<forall>e r. 0 \<le> e \<and> calculate_lr (script_schedule spe) e = Inr r
        \<longrightarrow> final_lr (script_schedule spe) \<le> r)"
proof -
  have total: "\<exists>r. calculate_lr (script_schedule spe) e = Inr r"
    by (simp add: calculate_lr_script)
  have ends: "calculate_lr (script_schedule spe) 0 = Inr (init_lr (script_schedule spe))"
    "calculate_lr (script_schedule spe) 15 = Inr (lr_after_warmup (script_schedule spe))"
    "calculate_lr (script_schedule spe) 100 = Inr (final_lr (script_schedule spe))"
    by (simp_all add: calculate_lr_script) (simp_all add: script_schedule_def)
  have fin: "final_lr (script_schedule spe) = 1 / 100000"
    by (simp add: script_schedule_def)
  show ?thesis
    using total ends lr_warmup_window[of _ _ spe] lr_decay_window[of _ _ spe]
      lr_never_below_final[of _ spe]
    unfolding fin by blast
qed

theorem calculate_lr_script_schedule_witness:
  "(0::int) \<le> 3 \<and> (3::int) \<le> 7 \<and> (7::int) \<le> 15 \<and>
   calculate_lr (script_schedule 203) 3 = Inr (311 / 1400000) \<and>
   calculate_lr (script_schedule 203) 7 = Inr (101 / 200000) \<and>
   (311 / 1400000 :: real) \<le> 101 / 200000 \<and>
   (15::int) \<le> 20 \<and> (20::int) \<le> 50 \<and>
   calculate_lr (script_schedule 203) 20 = Inr (1601 / 1700000) \<and>
   calculate_lr (script_schedule 203) 50 = Inr (1007 / 1700000) \<and>
   (1007 / 1700000 :: real) \<le> 1601 / 1700000 \<and>
   final_lr (script_schedule 203) \<le> 1007 / 1700000"
proof -
  note t = calculate_lr_script_schedule[of 203 0]
  have v: "calculate_lr (script_schedule 203) 3 = Inr (311 / 1400000)"
    "calculate_lr (script_schedule 203) 7 = Inr (101 / 200000)"
    "calculate_lr (script_schedule 203) 20 = Inr (1601 / 1700000)"
    "calculate_lr (script_schedule 203) 50 = Inr (1007 / 1700000)"
    by (simp_all add: calculate_lr_script)
  from t have up: "\<forall>e1 e2 r1 r2. 0 \<le> e1 \<and> e1 \<le> e2 \<and> e2 \<le> 15 \<and>
        calculate_lr (script_schedule 203) e1 = Inr r1 \<and>
        calculate_lr (script_schedule 203) e2 = Inr r2 \<longrightarrow> r1 \<le> r2"
    by blast
  from t have down: "\<forall>e1 e2 r1 r2. 15 \<le> e1 \<and> e1 \<le> e2 \<and>
        calculate_lr (script_schedule 203) e1 = Inr r1 \<and>
        calculate_lr (script_schedule 203) e2 = Inr r2 \<longrightarrow> r2 \<le> r1"
    by blast
  from t have low: "\<forall>e r. 0 \<le> e \<and> calculate_lr (script_schedule 203) e = Inr r
        \<longrightarrow> final_lr (script_schedule 203) \<le> r"
    by blast
  have h: "(0::int) \<le> 3" "(3::int) \<le> 7" "(7::int) \<le> 15"
    "(15::int) \<le> 20" "(20::int) \<le> 50" "(50::int) \<le> 100" "(0::int) \<le> 50"
    by simp_all
  from up h(1-3) v(1,2) have a: "(311 / 1400000 :: real) \<le> 101 / 200000"
    by blast
  from down h(4,5) v(3,4) have b: "(1007 / 1700000 :: real) \<le> 1601 / 1700000"
    by blast
  from low h(7) v(4) have c: "final_lr (script_schedule 203) \<le> 1007 / 1700000"
    by blast
  from h v a b c show ?thesis by blast
qed

lemma ramp_start: "x1 \<noteq> x0 \<Longrightarrow> ramp x0 y0 x1 y1 x0 = y0"
  by (simp add: ramp_def)

lemma ramp_end: "x1 \<noteq> x0 \<Longrightarrow> ramp x0 y0 x1 y1 x1 = y1"
  by (simp add: ramp_def)

lemma script_call_epoch_1:
  "CustomSchedule_call (script_schedule 203) 203 = Inr (113 / 1400000)"
  by (simp add: CustomSchedule_call_def calculate_lr_script) (simp add: script_schedule_def)

lemma spec_schedule_epoch_1:
  "spec_schedule (script_schedule 203) 203 = 19 / 250000"
  by (simp add: spec_schedule_def spec_warmup_ramp_def spec_decay_ramp_def ramp_def
      script_schedule_def)

text \<open>
  C7, as stated: at every step the schedule is the minimum of a warm-up ramp that
  reaches \<open>lr_after_warmup\<close> at epoch \<open>warmup_epochs\<close> and the clamped decay ramp. With
  the parameters of the notebook and 203 steps per epoch, it is not at step 203
  (epoch 1).
\<close>

theorem CustomSchedule_call_spec_counterexample:
  "CustomSchedule_call (script_schedule 203) 203
     \<noteq> Inr (spec_schedule (script_schedule 203) 203)"
  by (simp add: script_call_epoch_1 spec_schedule_epoch_1)

text \<open>
  C7, amended: when no divisor is zero, the schedule at step \<open>s\<close> is the minimum, at
  epoch \<open>s div steps_per_epoch\<close>, of a warm-up ramp that rises linearly from
  \<open>init_lr\<close> at epoch 0 and reaches \<open>lr_after_warmup\<close> at epoch \<open>warmup_epochs - 1\<close>,
  and of a decay ramp that falls linearly from \<open>lr_after_warmup\<close> at epoch
  \<open>warmup_epochs\<close> to \<open>final_lr\<close> \<open>decay_epochs\<close> epochs later, clamped below at
  \<open>final_lr\<close>.
\<close>

theorem CustomSchedule_call_ramps:
  assumes "warmup_epochs self \<noteq> 1" "decay_epochs self \<noteq> 0" "steps_per_epoch self \<noteq> 0"
  shows "CustomSchedule_call self step =
           Inr (min (code_warmup_ramp self (step div steps_per_epoch self))
                    (spec_decay_ramp self (step div steps_per_epoch self))) \<and>
         code_warmup_ramp self 0 = init_lr self \<and>
         code_warmup_ramp self (warmup_epochs self - 1) = lr_after_warmup self \<and>
         ramp (of_int (warmup_epochs self)) (lr_after_warmup self)
              (of_int (warmup_epochs self + decay_epochs self)) (final_lr self)
              (of_int (warmup_epochs self)) = lr_after_warmup self \<and>
         ramp (of_int (warmup_epochs self)) (lr_after_warmup self)
              (of_int (warmup_epochs self + decay_epochs self)) (final_lr self)
              (of_int (warmup_epochs self + decay_epochs self)) = final_lr self"
proof -
  let ?e = "step div steps_per_epoch self"
  have w1: "(of_int (warmup_epochs self - 1) :: real) \<noteq> 0"
    using assms(1) by simp
  have d0: "(of_int (decay_epochs self) :: real) \<noteq> 0"
    using assms(2) by simp
  have c: "(warmup_epochs self - 1 = 0) = False" "(decay_epochs self = 0) = False"
    "(steps_per_epoch self = 0) = False"
    using assms by simp_all
  have warm: "init_lr self
        + ((lr_after_warmup self - init_lr self) / of_int (warmup_epochs self - 1)) * of_int ?e
      = code_warmup_ramp self ?e"
    by (simp add: code_warmup_ramp_def ramp_def)
  have dec: "lr_after_warmup self
        - of_int (?e - warmup_epochs self) * (lr_after_warmup self - final_lr self)
          / of_int (decay_epochs self)
      = ramp (of_int (warmup_epochs self)) (lr_after_warmup self)
              (of_int (warmup_epochs self + decay_epochs self)) (final_lr self) (of_int ?e)"
    using d0 by (simp add: ramp_def field_simps)
  have call: "CustomSchedule_call self step =
           Inr (min (code_warmup_ramp self ?e) (spec_decay_ramp self ?e))"
    by (simp only: CustomSchedule_call_def calculate_lr_def Let_def c if_False warm dec
        spec_decay_ramp_def)
  have e1: "code_warmup_ramp self 0 = init_lr self"
    by (simp add: code_warmup_ramp_def ramp_def)
  have e2: "code_warmup_ramp self (warmup_epochs self - 1) = lr_after_warmup self"
    unfolding code_warmup_ramp_def using w1 by (simp add: ramp_def)
  have e3: "ramp (of_int (warmup_epochs self)) (lr_after_warmup self)
              (of_int (warmup_epochs self + decay_epochs self)) (final_lr self)
              (of_int (warmup_epochs self)) = lr_after_warmup self"
    by (simp add: ramp_def)
  have e4: "ramp (of_int (warmup_epochs self)) (lr_after_warmup self)
              (of_int (warmup_epochs self + decay_epochs self)) (final_lr self)
              (of_int (warmup_epochs self + decay_epochs self)) = final_lr self"
    using d0 by (simp add: ramp_def)
  from call e1 e2 e3 e4 show ?thesis by blast
qed

theorem CustomSchedule_call_ramps_witness:
  "warmup_epochs (script_schedule 203) \<noteq> 1 \<and> decay_epochs (script_schedule 203) \<noteq> 0 \<and>
   steps_per_epoch (script_schedule 203) \<noteq> 0 \<and>
   CustomSchedule_call (script_schedule 203) 2842 =
     Inr (min (code_warmup_ramp (script_schedule 203) 14)
              (spec_decay_ramp (script_schedule 203) 14)) \<and>
   code_warmup_ramp (script_schedule 203) 14 = 1 / 1000"
proof -
  have h: "warmup_epochs (script_schedule 203) \<noteq> 1" "decay_epochs (script_schedule 203) \<noteq> 0"
    "steps_per_epoch (script_schedule 203) \<noteq> 0"
    by (simp_all add: script_schedule_def)
  have e: "2842 div steps_per_epoch (script_schedule 203) = 14"
    "warmup_epochs (script_schedule 203) - 1 = 14" "lr_after_warmup (script_schedule 203) = 1 / 1000"
    by (simp_all add: script_schedule_def)
  from CustomSchedule_call_ramps[OF h, of 2842] h show ?thesis
    unfolding e by blast
qed

end
